theory Spec2Isabelle
  imports Main "HOL-Library.Multiset"
begin

section \<open>Dates\<close>

text \<open>
  A JavaScript \<^verbatim>\<open>Date\<close> is its time value: the milliseconds since the epoch, an integer.
  Subtracting two dates gives the difference of the time values, and
  \<^verbatim>\<open>Math.floor(x / (1000 * 60 * 60 * 24))\<close> is floor division, which is \<open>div\<close> on \<open>int\<close>.
\<close>

definition msPerDay :: int where
  "msPerDay = 1000 * 60 * 60 * 24"

definition floorDays :: "int \<Rightarrow> int" where
  "floorDays ms = ms div msPerDay"

text \<open>The instant \<^verbatim>\<open>new Date('YYYY-MM-DD')\<close> denotes: midnight UTC of that calendar day.\<close>

definition dateOnly :: "int \<Rightarrow> int" where
  "dateOnly day = day * msPerDay"

text \<open>
  The time zone of the process, as the language defines local time: \<open>offset_at z t\<close> is the
  offset of local time from UTC in force at the instant \<open>t\<close> (milliseconds, positive east of
  UTC), and \<open>offset_of_local z l\<close> the offset by which the local clock reading \<open>l\<close> is turned
  back into an instant. Daylight saving makes both depend on their argument.
\<close>

record zone =
  offset_at :: "int \<Rightarrow> int"
  offset_of_local :: "int \<Rightarrow> int"

text \<open>
  \<^verbatim>\<open>setHours(0, 0, 0, 0)\<close>: the instant is turned into a local clock reading, the reading is
  moved to the start of its day, and the result is turned back into an instant.
\<close>

definition setHours0 :: "zone \<Rightarrow> int \<Rightarrow> int" where
  "setHours0 z t =
     (let local = t + offset_at z t;
          midnight = local - local mod msPerDay
      in midnight - offset_of_local z midnight)"

text \<open>A zone whose offset never changes, and UTC among them.\<close>

definition fixedZone :: "int \<Rightarrow> zone" where
  "fixedZone off = \<lparr>offset_at = (\<lambda>t. off), offset_of_local = (\<lambda>l. off)\<rparr>"

definition utc :: zone where
  "utc = fixedZone 0"

text \<open>
  America/New_York around the start of daylight saving on 14 March 2021: five hours behind
  UTC before 07:00 UTC of that day (time value 1615705200000), four hours behind from then
  on. Clock readings up to the end of the skipped hour are read with the earlier offset. The
  zone's neighbouring changes, in November 2020 and November 2021, are outside the instants
  it is used at.
\<close>

definition newYork :: zone where
  "newYork =
     \<lparr>offset_at = (\<lambda>t. if t < 1615705200000 then - 18000000 else - 14400000),
      offset_of_local = (\<lambda>l. if l < 1615705200000 - 14400000 then - 18000000 else - 14400000)\<rparr>"

text \<open>
  The calendar day (days since the epoch) an instant falls on in a zone of fixed offset
  \<open>off\<close>.
\<close>

definition localDay :: "int \<Rightarrow> int \<Rightarrow> int" where
  "localDay off t = (t + off) div msPerDay"

section \<open>The store's answers\<close>

text \<open>
  The columns \<^verbatim>\<open>select('date, completed')\<close> returns. The field \<open>date\<close> holds the time value
  of \<^verbatim>\<open>new Date(row.date)\<close>.
\<close>

record progress_sel =
  date :: int
  completed :: bool

text \<open>
  A query resolves to \<^verbatim>\<open>{ data, error }\<close>, where \<^verbatim>\<open>data\<close> may be null, or the awaited
  promise rejects and \<^verbatim>\<open>await\<close> throws.
\<close>

datatype 'a response = Response (data: "'a option") (error: "string option")

datatype 'a awaited = Fulfilled 'a | Rejected string

section \<open>calculateStreaks\<close>

text \<open>
  The first loop (\<^verbatim>\<open>// Calculate current streak\<close>), from index \<open>i\<close> with the counter
  \<open>currentStreak\<close>. Only the \<^verbatim>\<open>break\<close> leaves it early; at \<open>i = 0\<close> with a first date that
  is neither today nor yesterday no branch is taken and the loop goes on.
\<close>

function current_streak_loop :: "zone \<Rightarrow> int \<Rightarrow> progress_sel list \<Rightarrow> nat \<Rightarrow> int \<Rightarrow> int" where
  "current_streak_loop z today progress i currentStreak =
     (if i < length progress then
        (let progressDate = setHours0 z (date (progress ! i));
             daysDiff = floorDays (today - progressDate)
         in if i = 0 \<and> (daysDiff = 0 \<or> daysDiff = 1) then
              current_streak_loop z today progress (i + 1) 1
            else if i > 0 then
              (let prevDate = setHours0 z (date (progress ! (i - 1)));
                   prevDaysDiff = floorDays (prevDate - progressDate)
               in if prevDaysDiff = 1 then
                    current_streak_loop z today progress (i + 1) (currentStreak + 1)
                  else currentStreak)
            else current_streak_loop z today progress (i + 1) currentStreak)
      else currentStreak)"
  by pat_completeness auto
termination
  by (relation "measure (\<lambda>(z, today, progress, i, c). length progress - i)") auto

text \<open>
  The second loop (\<^verbatim>\<open>// Calculate longest streak\<close>), from index \<open>i\<close> with the counters
  \<open>tempStreak\<close> and \<open>longestStreak\<close>. It subtracts the dates as they are: no
  \<^verbatim>\<open>setHours\<close> here.
\<close>

function longest_streak_loop :: "progress_sel list \<Rightarrow> nat \<Rightarrow> int \<Rightarrow> int \<Rightarrow> int" where
  "longest_streak_loop progress i tempStreak longestStreak =
     (if i < length progress then
        (let currentDate = date (progress ! i);
             prevDate = date (progress ! (i - 1));
             daysDiff = floorDays (prevDate - currentDate)
         in if daysDiff = 1 then
              longest_streak_loop progress (i + 1) (tempStreak + 1) (max longestStreak (tempStreak + 1))
            else longest_streak_loop progress (i + 1) 1 longestStreak)
      else longestStreak)"
  by pat_completeness auto
termination
  by (relation "measure (\<lambda>(progress, i, t, l). length progress - i)") auto

declare current_streak_loop.simps [simp del]
declare longest_streak_loop.simps [simp del]

text \<open>The object \<^verbatim>\<open>{ currentStreak, longestStreak }\<close> returned.\<close>

record streaks =
  currentStreak :: int
  longestStreak :: int

text \<open>
  The body of the \<^verbatim>\<open>try\<close> block: \<open>Inl\<close> is an exception thrown inside it. \<open>z\<close> is the zone
  of the process, \<open>now\<close> the time value of \<^verbatim>\<open>new Date()\<close> and \<open>q\<close> what awaiting the query
  gave.
\<close>

definition calculateStreaks_try ::
  "zone \<Rightarrow> int \<Rightarrow> progress_sel list response awaited \<Rightarrow> string + streaks" where
  "calculateStreaks_try z now q =
     (case q of
        Rejected e \<Rightarrow> Inl e
      | Fulfilled r \<Rightarrow>
          (case data r of
             None \<Rightarrow> Inr \<lparr>currentStreak = 0, longestStreak = 0\<rparr>
           | Some progress \<Rightarrow>
               if error r \<noteq> None \<or> length progress = 0 then
                 Inr \<lparr>currentStreak = 0, longestStreak = 0\<rparr>
               else
                 (let today = setHours0 z now
                  in Inr \<lparr>currentStreak = current_streak_loop z today progress 0 0,
                          longestStreak = longest_streak_loop progress 1 1 1\<rparr>)))"

text \<open>The whole function: the \<^verbatim>\<open>catch\<close> block answers every exception with zeros.\<close>

definition calculateStreaks ::
  "zone \<Rightarrow> int \<Rightarrow> progress_sel list response awaited \<Rightarrow> streaks" where
  "calculateStreaks z now q =
     (case calculateStreaks_try z now q of
        Inl e \<Rightarrow> \<lparr>currentStreak = 0, longestStreak = 0\<rparr>
      | Inr s \<Rightarrow> s)"

text \<open>A query that succeeded with the given dates, in the order given.\<close>

definition rows :: "int list \<Rightarrow> progress_sel list response awaited" where
  "rows ds = Fulfilled (Response (Some (map (\<lambda>d. \<lparr>date = d, completed = True\<rparr>) ds)) None)"

section \<open>The progress and habits tables\<close>

text \<open>
  A row of the table \<^verbatim>\<open>progress\<close>: the two columns above and the others the handlers
  read or write. The field \<open>date\<close> holds the time value of \<^verbatim>\<open>new Date(row.date)\<close>; the
  bookkeeping columns \<^verbatim>\<open>created_at\<close> and \<^verbatim>\<open>updated_at\<close> are left out. Row ids are
  given by the store. The repository declares no uniqueness constraint on the table, and
  the tables here have none.
\<close>

record progress_row = progress_sel +
  row_id :: nat
  user_id :: string
  habit_id :: string
  row_notes :: string

text \<open>A row of the table \<^verbatim>\<open>habits\<close>: its key, its owner and the three cached statistics.\<close>

record habit_row =
  h_id :: string
  h_user_id :: string
  current_streak :: int
  longest_streak :: int
  total_completions :: int

record db =
  habits_table :: "habit_row list"
  progress_table :: "progress_row list"

text \<open>
  How the store treats one call: it answers from its tables, or it resolves with an error
  and no data, or the promise rejects. A write that fails in either way is not applied. One
  value for each of the calls a toggle request makes, in the order it makes them; the update
  and the insert, of which a request makes one, share \<open>progress_write\<close>.
\<close>

datatype outcome = Answers | Fails string | Throws string

record store_run =
  habit_fetch :: outcome
  progress_fetch :: outcome
  progress_write :: outcome
  streak_query :: outcome
  count_query :: outcome
  habit_write :: outcome

definition query :: "outcome \<Rightarrow> 'a response \<Rightarrow> 'a response awaited" where
  "query out answer =
     (case out of
        Answers \<Rightarrow> Fulfilled answer
      | Fails e \<Rightarrow> Fulfilled (Response None (Some e))
      | Throws e \<Rightarrow> Rejected e)"

definition all_answer :: store_run where
  "all_answer =
     \<lparr>habit_fetch = Answers, progress_fetch = Answers, progress_write = Answers,
      streak_query = Answers, count_query = Answers, habit_write = Answers\<rparr>"

text \<open>
  \<^verbatim>\<open>.single()\<close> on the rows a query matched: the row when there is exactly one, else no
  data and the error \<^verbatim>\<open>PGRST116\<close>. Any other error of the call comes from \<open>query\<close>.
\<close>

definition single :: "'a list \<Rightarrow> 'a response" where
  "single xs = (case xs of [x] \<Rightarrow> Response (Some x) None | _ \<Rightarrow> Response None (Some ''PGRST116''))"

text \<open>
  The rows the query of calculateStreaks selects: the completed rows of the habit and user,
  most recent date first, projected to the two selected columns.
\<close>

definition select_completed :: "progress_row list \<Rightarrow> string \<Rightarrow> string \<Rightarrow> progress_sel list" where
  "select_completed table habitId userId =
     map (\<lambda>r. \<lparr>date = date r, completed = completed r\<rparr>)
       (rev (sort_key date
         (filter (\<lambda>r. habit_id r = habitId \<and> user_id r = userId \<and> completed r = True) table)))"

definition answered :: "'a \<Rightarrow> 'a response awaited" where
  "answered x = Fulfilled (Response (Some x) None)"

section \<open>The toggle handler\<close>

text \<open>
  The body of a request that passed validation: \<open>body_date\<close> is the time value of
  \<^verbatim>\<open>new Date(date)\<close>, \<open>body_notes\<close> is \<open>None\<close> when \<^verbatim>\<open>notes\<close> is undefined.
\<close>

record toggle_request =
  req_userId :: string
  body_habitId :: string
  body_date :: int
  body_notes :: "string option"

text \<open>The answers of the handler: the four error codes, or the row as JSON (null or a row).\<close>

datatype toggle_response =
  NOT_FOUND | UPDATE_ERROR | CREATE_ERROR | SERVER_ERROR | Json "progress_row option"

text \<open>
  \<^verbatim>\<open>progressDate.toISOString().split('T')[0]\<close>, stored in the column \<^verbatim>\<open>date\<close>: the UTC
  calendar day of the local midnight, as the time value the stored string denotes.
\<close>

definition dateString :: "zone \<Rightarrow> int \<Rightarrow> int" where
  "dateString z d = dateOnly (floorDays (setHours0 z d))"

definition fresh_id :: "progress_row list \<Rightarrow> nat" where
  "fresh_id table = Suc (fold max (map row_id table) 0)"

text \<open>
  The closing part of the handler (\<^verbatim>\<open>// Update habit streaks and total completions\<close>):
  calculateStreaks, the count of completed rows, whose error is not looked at, and the write
  to the habit's row, whose result is not looked at. A promise that rejects is caught by the
  handler's \<^verbatim>\<open>catch\<close>.
\<close>

definition recompute ::
  "zone \<Rightarrow> int \<Rightarrow> store_run \<Rightarrow> db \<Rightarrow> string \<Rightarrow> string \<Rightarrow> progress_row option
    \<Rightarrow> toggle_response \<times> db" where
  "recompute z now run s habitId userId progress =
     (let st = calculateStreaks z now
            (query (streak_query run)
               (Response (Some (select_completed (progress_table s) habitId userId)) None))
      in case query (count_query run)
             (Response (Some (filter
                (\<lambda>r. habit_id r = habitId \<and> user_id r = userId \<and> completed r = True)
                (progress_table s))) None) of
           Rejected x \<Rightarrow> (SERVER_ERROR, s)
         | Fulfilled counted \<Rightarrow>
             (let totalCompletions =
                    (case data counted of Some ids \<Rightarrow> int (length ids) | None \<Rightarrow> 0)
              in case habit_write run of
                   Throws x \<Rightarrow> (SERVER_ERROR, s)
                 | Fails x \<Rightarrow> (Json progress, s)
                 | Answers \<Rightarrow>
                     (Json progress,
                      s\<lparr>habits_table := map (\<lambda>h. if h_id h = habitId \<and> h_user_id h = userId
                           then h\<lparr>current_streak := currentStreak st,
                                  longest_streak := longestStreak st,
                                  total_completions := totalCompletions\<rparr>
                           else h) (habits_table s)\<rparr>)))"

text \<open>The branch \<^verbatim>\<open>// Toggle existing progress\<close>, on the row the lookup returned.\<close>

definition update_existing ::
  "zone \<Rightarrow> int \<Rightarrow> store_run \<Rightarrow> db \<Rightarrow> toggle_request \<Rightarrow> progress_row
    \<Rightarrow> toggle_response \<times> db" where
  "update_existing z now run s req existingProgress =
     (let table = map (\<lambda>r. if row_id r = row_id existingProgress
            then r\<lparr>completed := \<not> completed existingProgress,
                   row_notes := (case body_notes req of Some n \<Rightarrow> n
                                 | None \<Rightarrow> row_notes existingProgress)\<rparr>
            else r) (progress_table s)
      in case query (progress_write run)
             (single (filter (\<lambda>r. row_id r = row_id existingProgress) table)) of
           Rejected x \<Rightarrow> (SERVER_ERROR, s)
         | Fulfilled updatedProgress \<Rightarrow>
             (case error updatedProgress of
                Some updateError \<Rightarrow> (UPDATE_ERROR, s)
              | None \<Rightarrow>
                  recompute z now run (s\<lparr>progress_table := table\<rparr>)
                    (body_habitId req) (req_userId req) (data updatedProgress)))"

text \<open>The branch \<^verbatim>\<open>// Create new progress entry\<close>, for the stored date \<open>ds\<close>.\<close>

definition insert_new ::
  "zone \<Rightarrow> int \<Rightarrow> store_run \<Rightarrow> db \<Rightarrow> toggle_request \<Rightarrow> int \<Rightarrow> toggle_response \<times> db" where
  "insert_new z now run s req ds =
     (let row = \<lparr>date = ds, completed = True,
            row_id = fresh_id (progress_table s), user_id = req_userId req,
            habit_id = body_habitId req,
            row_notes = (case body_notes req of Some n \<Rightarrow> n | None \<Rightarrow> [])\<rparr>
      in case query (progress_write run) (single [row]) of
           Rejected x \<Rightarrow> (SERVER_ERROR, s)
         | Fulfilled newProgress \<Rightarrow>
             (case error newProgress of
                Some createError \<Rightarrow> (CREATE_ERROR, s)
              | None \<Rightarrow>
                  recompute z now run (s\<lparr>progress_table := progress_table s @ [row]\<rparr>)
                    (body_habitId req) (req_userId req) (data newProgress)))"

text \<open>
  The handler, run for one request from its first call to its last. The existing row is
  updated only when the lookup returned a row and no error; every other answer of the
  lookup, an error of any kind among them, leads to the insert. A promise that rejects is
  caught and answered with \<^verbatim>\<open>SERVER_ERROR\<close>.
\<close>

definition toggle ::
  "zone \<Rightarrow> int \<Rightarrow> store_run \<Rightarrow> db \<Rightarrow> toggle_request \<Rightarrow> toggle_response \<times> db" where
  "toggle z now run s req =
     (case query (habit_fetch run)
             (single (filter (\<lambda>h. h_id h = body_habitId req \<and> h_user_id h = req_userId req)
                (habits_table s))) of
        Rejected x \<Rightarrow> (SERVER_ERROR, s)
      | Fulfilled habit \<Rightarrow>
          (case (error habit, data habit) of
             (None, Some h) \<Rightarrow>
               (let ds = dateString z (body_date req)
                in case query (progress_fetch run)
                       (single (filter
                          (\<lambda>r. user_id r = req_userId req \<and> habit_id r = body_habitId req \<and>
                               date r = ds) (progress_table s))) of
                     Rejected x \<Rightarrow> (SERVER_ERROR, s)
                   | Fulfilled found \<Rightarrow>
                       (case (data found, error found) of
                          (Some existingProgress, None) \<Rightarrow>
                            update_existing z now run s req existingProgress
                        | _ \<Rightarrow> insert_new z now run s req ds))
           | _ \<Rightarrow> (NOT_FOUND, s)))"

section \<open>Date arithmetic at a fixed offset\<close>

lemma msPerDay_pos: "0 < msPerDay"
  by (simp add: msPerDay_def)

lemma setHours0_fixed: "setHours0 (fixedZone off) t = t - (t + off) mod msPerDay"
  by (simp add: setHours0_def fixedZone_def Let_def)

lemma setHours0_fixed_localDay:
  "setHours0 (fixedZone off) t = localDay off t * msPerDay - off"
proof -
  have "(t + off) div msPerDay * msPerDay + (t + off) mod msPerDay = t + off"
    by simp
  then show ?thesis
    unfolding setHours0_fixed localDay_def by linarith
qed

lemma floorDays_mult: "floorDays (k * msPerDay) = k"
  using msPerDay_pos by (simp add: floorDays_def)

lemma floorDays_one: "floorDays msPerDay = 1"
  using floorDays_mult [of 1] by simp

lemma floorDays_setHours0_fixed:
  "floorDays (setHours0 (fixedZone off) a - setHours0 (fixedZone off) b) =
   localDay off a - localDay off b"
proof -
  have "setHours0 (fixedZone off) a - setHours0 (fixedZone off) b =
      (localDay off a - localDay off b) * msPerDay"
    by (simp add: setHours0_fixed_localDay left_diff_distrib)
  then show ?thesis
    by (simp only: floorDays_mult)
qed

lemma localDay_shift: "localDay off (t - k * msPerDay) = localDay off t - k"
proof -
  have "t - k * msPerDay + off = (t + off) + (- k) * msPerDay"
    by simp
  then have "localDay off (t - k * msPerDay) = ((t + off) + (- k) * msPerDay) div msPerDay"
    by (simp only: localDay_def)
  also have "\<dots> = (- k) + (t + off) div msPerDay"
    using msPerDay_pos by (intro div_mult_self1) simp
  finally show ?thesis
    by (simp add: localDay_def)
qed

lemma localDay_dateOnly_utc: "localDay 0 (dateOnly day) = day"
  using msPerDay_pos by (simp add: localDay_def dateOnly_def)

lemma localDay_dateOnly: "localDay off (dateOnly a) - localDay off (dateOnly b) = a - b"
proof -
  have "localDay off (dateOnly x) = x + off div msPerDay" for x
    using msPerDay_pos by (simp add: localDay_def dateOnly_def)
  then show ?thesis by simp
qed

lemma floorDays_dateOnly: "floorDays (dateOnly a - dateOnly b) = a - b"
  using floorDays_mult [of "a - b"] by (simp add: dateOnly_def left_diff_distrib)

section \<open>One turn of each loop\<close>

lemma current_streak_loop_end:
  "length progress \<le> i \<Longrightarrow> current_streak_loop z today progress i c = c"
  by (subst current_streak_loop.simps) simp

lemma current_streak_loop_first:
  "0 < length progress \<Longrightarrow>
   current_streak_loop z today progress 0 c =
     current_streak_loop z today progress (Suc 0)
       (if floorDays (today - setHours0 z (date (progress ! 0))) \<in> {0, 1} then 1 else c)"
  by (subst current_streak_loop.simps) (simp add: Let_def)

lemma current_streak_loop_next:
  "Suc i < length progress \<Longrightarrow>
   current_streak_loop z today progress (Suc i) c =
     (if floorDays (setHours0 z (date (progress ! i)) - setHours0 z (date (progress ! Suc i))) = 1
      then current_streak_loop z today progress (Suc (Suc i)) (c + 1) else c)"
  by (subst current_streak_loop.simps) (simp add: Let_def)

lemma longest_streak_loop_end:
  "length progress \<le> i \<Longrightarrow> longest_streak_loop progress i t l = l"
  by (subst longest_streak_loop.simps) simp

lemma longest_streak_loop_next:
  "Suc i < length progress \<Longrightarrow>
   longest_streak_loop progress (Suc i) t l =
     (if floorDays (date (progress ! i) - date (progress ! Suc i)) = 1
      then longest_streak_loop progress (Suc (Suc i)) (t + 1) (max l (t + 1))
      else longest_streak_loop progress (Suc (Suc i)) 1 l)"
  by (subst longest_streak_loop.simps) (simp add: Let_def)

lemma calculateStreaks_rows:
  "ds \<noteq> [] \<Longrightarrow>
   calculateStreaks z now (rows ds) =
     \<lparr>currentStreak =
        current_streak_loop z (setHours0 z now)
          (map (\<lambda>d. \<lparr>date = d, completed = True\<rparr>) ds) 0 0,
      longestStreak =
        longest_streak_loop (map (\<lambda>d. \<lparr>date = d, completed = True\<rparr>) ds) (Suc 0) 1 1\<rparr>"
  by (simp add: calculateStreaks_def calculateStreaks_try_def rows_def)

lemmas loop_turns =
  calculateStreaks_rows current_streak_loop_first current_streak_loop_next
  current_streak_loop_end longest_streak_loop_next longest_streak_loop_end

section \<open>The two loops compared\<close>

lemma longest_streak_loop_ge: "l \<le> longest_streak_loop progress i t l"
proof (induction "length progress - i" arbitrary: i t l)
  case 0
  then show ?case by (simp add: longest_streak_loop_end)
next
  case (Suc n)
  then have lt: "i < length progress" and n: "n = length progress - Suc i"
    by simp_all
  have "l \<le> longest_streak_loop progress (Suc i) t' l'" if "l \<le> l'" for t' l'
    using Suc.hyps(1) [OF n, of l' t'] that by simp
  then show ?case
    using lt by (subst longest_streak_loop.simps) (simp add: Let_def)
qed

lemma current_streak_loop_ge:
  "c \<le> current_streak_loop z today progress (Suc i) c"
proof (induction "length progress - Suc i" arbitrary: i c)
  case 0
  then show ?case by (simp add: current_streak_loop_end)
next
  case (Suc n)
  then have lt: "Suc i < length progress" and n: "n = length progress - Suc (Suc i)"
    by simp_all
  have "c + 1 \<le> current_streak_loop z today progress (Suc (Suc i)) (c + 1)"
    by (rule Suc.hyps(1) [OF n])
  then show ?case
    using lt by (simp add: current_streak_loop_next)
qed

text \<open>
  Where the two loops agree on which neighbours are one day apart, the first loop's counter
  stays below the second loop's maximum.
\<close>

lemma current_le_longest_loop:
  assumes same: "\<And>j. Suc j < length progress \<Longrightarrow>
      (floorDays (setHours0 z (date (progress ! j)) - setHours0 z (date (progress ! Suc j))) = 1) =
      (floorDays (date (progress ! j) - date (progress ! Suc j)) = 1)"
    and "c \<le> t" and "t \<le> l"
  shows "current_streak_loop z today progress (Suc i) c
    \<le> longest_streak_loop progress (Suc i) t l"
  using assms(2,3)
proof (induction "length progress - Suc i" arbitrary: i c t l)
  case 0
  then show ?case by (simp add: current_streak_loop_end longest_streak_loop_end)
next
  case (Suc n)
  then have lt: "Suc i < length progress" and n: "n = length progress - Suc (Suc i)"
    by simp_all
  show ?case
  proof (cases "floorDays (date (progress ! i) - date (progress ! Suc i)) = 1")
    case True
    have "current_streak_loop z today progress (Suc (Suc i)) (c + 1)
        \<le> longest_streak_loop progress (Suc (Suc i)) (t + 1) (max l (t + 1))"
      using Suc.prems by (intro Suc.hyps(1) [OF n]) simp_all
    then show ?thesis
      using lt True same [OF lt] by (simp add: current_streak_loop_next longest_streak_loop_next)
  next
    case False
    have "c \<le> l" using Suc.prems by simp
    also have "l \<le> longest_streak_loop progress (Suc (Suc i)) 1 l"
      by (rule longest_streak_loop_ge)
    finally show ?thesis
      using lt False same [OF lt] by (simp add: current_streak_loop_next longest_streak_loop_next)
  qed
qed

text \<open>
  In a zone of fixed offset the loops do agree on calendar dates, and there
  longestStreak \<ge> currentStreak \<ge> 0 for every list of calendar dates and every now.
\<close>

lemma longest_ge_current_fixed_offset:
  "0 \<le> currentStreak (calculateStreaks (fixedZone off) now (rows (map dateOnly days))) \<and>
   currentStreak (calculateStreaks (fixedZone off) now (rows (map dateOnly days)))
     \<le> longestStreak (calculateStreaks (fixedZone off) now (rows (map dateOnly days)))"
proof (cases "days = []")
  case True
  then show ?thesis
    by (simp add: calculateStreaks_def calculateStreaks_try_def rows_def)
next
  case False
  let ?z = "fixedZone off"
  define p where "p = map (\<lambda>d. \<lparr>date = d, completed = True\<rparr>) (map dateOnly days)"
  define c :: int where
    "c = (if floorDays (setHours0 ?z now - setHours0 ?z (date (p ! 0))) \<in> {0, 1} then 1 else 0)"
  have len: "0 < length p"
    using False by (simp add: p_def)
  have same: "(floorDays (setHours0 ?z (date (p ! j)) - setHours0 ?z (date (p ! Suc j))) = 1) =
      (floorDays (date (p ! j) - date (p ! Suc j)) = 1)" if "Suc j < length p" for j
    using that by (simp add: p_def floorDays_setHours0_fixed localDay_dateOnly floorDays_dateOnly)
  have cur: "current_streak_loop ?z (setHours0 ?z now) p 0 0 =
      current_streak_loop ?z (setHours0 ?z now) p (Suc 0) c"
    using len by (simp add: current_streak_loop_first c_def)
  have c01: "0 \<le> c" "c \<le> 1"
    by (simp_all add: c_def)
  have "c \<le> current_streak_loop ?z (setHours0 ?z now) p (Suc 0) c"
    by (rule current_streak_loop_ge)
  moreover have "current_streak_loop ?z (setHours0 ?z now) p (Suc 0) c
      \<le> longest_streak_loop p (Suc 0) 1 1"
    using same c01 by (intro current_le_longest_loop) simp_all
  ultimately show ?thesis
    using False c01 cur by (simp add: calculateStreaks_rows p_def)
qed

text \<open>
  In a zone of fixed offset a single date gives currentStreak = 1 exactly when the local day
  its instant falls on is today or yesterday.
\<close>

lemma single_date_fixed_offset:
  "calculateStreaks (fixedZone off) now (rows [d]) =
     \<lparr>currentStreak = (if localDay off now - localDay off d \<in> {0, 1} then 1 else 0),
      longestStreak = 1\<rparr>"
  by (simp add: loop_turns floorDays_setHours0_fixed)

text \<open>
  In a zone of fixed offset, with \<open>d\<close> an instant of today's local day and the other dates
  whole days before it, the two examples give (3, 3) and (2, 3).
\<close>

lemma examples_fixed_offset:
  assumes "localDay off d = localDay off now"
  shows "calculateStreaks (fixedZone off) now (rows [d, d - 1 * msPerDay, d - 2 * msPerDay]) =
           \<lparr>currentStreak = 3, longestStreak = 3\<rparr> \<and>
         calculateStreaks (fixedZone off) now
           (rows [d, d - 1 * msPerDay, d - 5 * msPerDay, d - 6 * msPerDay, d - 7 * msPerDay]) =
           \<lparr>currentStreak = 2, longestStreak = 3\<rparr>"
proof -
  have f: "floorDays (4 * msPerDay) = 4"
    by (rule floorDays_mult)
  show ?thesis
    using assms f
    by (simp add: loop_turns floorDays_setHours0_fixed floorDays_one localDay_shift
        del: mult_1 mult_1_left)
qed

text \<open>
  The loops rely on the order the query gives: on the same two dates, oldest first, the first
  pair is not one day apart in the direction the loops subtract.
\<close>

lemma loops_depend_on_order:
  "calculateStreaks utc (dateOnly 10) (rows [dateOnly 10, dateOnly 9]) =
     \<lparr>currentStreak = 2, longestStreak = 2\<rparr> \<and>
   calculateStreaks utc (dateOnly 10) (rows [dateOnly 9, dateOnly 10]) =
     \<lparr>currentStreak = 1, longestStreak = 1\<rparr>"
  by (simp add: loop_turns utc_def setHours0_fixed floorDays_def dateOnly_def msPerDay_def)

section \<open>The query orders the rows\<close>

lemma map_sort_key: "map f (sort_key f xs) = sort (map f xs)"
  by (rule properties_for_sort [symmetric]) simp_all

lemma sort_cong_mset: "mset xs = mset ys \<Longrightarrow> sort xs = sort ys"
  by (rule properties_for_sort) simp_all

lemma select_completed_dates:
  "select_completed table habitId userId =
     map (\<lambda>d. \<lparr>date = d, completed = True\<rparr>)
       (rev (sort (map date
         (filter (\<lambda>r. habit_id r = habitId \<and> user_id r = userId \<and> completed r = True) table))))"
proof -
  let ?A = "filter (\<lambda>r. habit_id r = habitId \<and> user_id r = userId \<and> completed r = True) table"
  have proj: "map (\<lambda>r. \<lparr>date = date r, completed = completed r\<rparr>) xs =
      map (\<lambda>d. \<lparr>date = d, completed = True\<rparr>) (map date xs)" if "set xs \<subseteq> set ?A" for xs
    using that by (induction xs) auto
  have "set (rev (sort_key date ?A)) \<subseteq> set ?A"
    by simp
  then have "select_completed table habitId userId =
      map (\<lambda>d. \<lparr>date = d, completed = True\<rparr>) (map date (rev (sort_key date ?A)))"
    unfolding select_completed_def by (rule proj)
  then show ?thesis
    by (simp only: rev_map [symmetric] map_sort_key)
qed

section \<open>The toggle handler when the store answers\<close>

text \<open>
  With every call answered, a first request for a day appends one completed row and a second
  request for the same day negates the flag of that row in place.
\<close>

lemma toggle_insert_then_flip:
  "toggle utc (dateOnly 10) all_answer
     \<lparr>habits_table = [\<lparr>h_id = ''h'', h_user_id = ''u'', current_streak = 0,
                         longest_streak = 0, total_completions = 0\<rparr>],
      progress_table = []\<rparr>
     \<lparr>req_userId = ''u'', body_habitId = ''h'', body_date = dateOnly 10, body_notes = None\<rparr> =
   (Json (Some \<lparr>date = dateOnly 10, completed = True, row_id = 1, user_id = ''u'',
                habit_id = ''h'', row_notes = []\<rparr>),
    \<lparr>habits_table = [\<lparr>h_id = ''h'', h_user_id = ''u'', current_streak = 1,
                        longest_streak = 1, total_completions = 1\<rparr>],
     progress_table = [\<lparr>date = dateOnly 10, completed = True, row_id = 1, user_id = ''u'',
                         habit_id = ''h'', row_notes = []\<rparr>]\<rparr>) \<and>
   toggle utc (dateOnly 10) all_answer
     \<lparr>habits_table = [\<lparr>h_id = ''h'', h_user_id = ''u'', current_streak = 1,
                         longest_streak = 1, total_completions = 1\<rparr>],
      progress_table = [\<lparr>date = dateOnly 10, completed = True, row_id = 1, user_id = ''u'',
                          habit_id = ''h'', row_notes = []\<rparr>]\<rparr>
     \<lparr>req_userId = ''u'', body_habitId = ''h'', body_date = dateOnly 10, body_notes = None\<rparr> =
   (Json (Some \<lparr>date = dateOnly 10, completed = False, row_id = 1, user_id = ''u'',
                habit_id = ''h'', row_notes = []\<rparr>),
    \<lparr>habits_table = [\<lparr>h_id = ''h'', h_user_id = ''u'', current_streak = 0,
                        longest_streak = 0, total_completions = 0\<rparr>],
     progress_table = [\<lparr>date = dateOnly 10, completed = False, row_id = 1, user_id = ''u'',
                         habit_id = ''h'', row_notes = []\<rparr>]\<rparr>)"
proof -
  have d: "dateString utc (dateOnly 10) = dateOnly 10"
    by (simp add: dateString_def utc_def setHours0_fixed dateOnly_def floorDays_def msPerDay_def)
  have one: "calculateStreaks utc (dateOnly 10) (rows [dateOnly 10]) =
      \<lparr>currentStreak = 1, longestStreak = 1\<rparr>"
    by (simp add: utc_def single_date_fixed_offset)
  have none: "calculateStreaks utc (dateOnly 10) (rows []) =
      \<lparr>currentStreak = 0, longestStreak = 0\<rparr>"
    by (simp add: calculateStreaks_def calculateStreaks_try_def rows_def)
  show ?thesis
    using one none
    by (simp add: toggle_def insert_new_def update_existing_def recompute_def query_def
        single_def all_answer_def d fresh_id_def select_completed_def rows_def Let_def)
qed

text \<open>
  Two requests for the same new day whose lookups both ran before either insert: the second
  request, which found no row in the table as it was, inserts into the table the first one
  has already written, and the habit has two rows for the day.
\<close>

lemma interleaved_toggles_second_row:
  "progress_table (snd (insert_new utc (dateOnly 10) all_answer
     (snd (toggle utc (dateOnly 10) all_answer
        \<lparr>habits_table = [\<lparr>h_id = ''h'', h_user_id = ''u'', current_streak = 0,
                            longest_streak = 0, total_completions = 0\<rparr>],
         progress_table = []\<rparr>
        \<lparr>req_userId = ''u'', body_habitId = ''h'', body_date = dateOnly 10, body_notes = None\<rparr>))
     \<lparr>req_userId = ''u'', body_habitId = ''h'', body_date = dateOnly 10, body_notes = None\<rparr>
     (dateOnly 10))) =
   [\<lparr>date = dateOnly 10, completed = True, row_id = 1, user_id = ''u'', habit_id = ''h'',
     row_notes = []\<rparr>,
    \<lparr>date = dateOnly 10, completed = True, row_id = 2, user_id = ''u'', habit_id = ''h'',
     row_notes = []\<rparr>]"
  unfolding toggle_insert_then_flip [THEN conjunct1] snd_conv
  by (simp add: insert_new_def recompute_def query_def single_def all_answer_def fresh_id_def
      Let_def)

text \<open>
  In a process five hours west of UTC a request for day 10, made on the local day 10, stores
  the date of day 9, and the streak written to the habit is 0.
\<close>

lemma toggle_today_west_of_utc:
  "toggle (fixedZone (- 18000000)) (dateOnly 10 + 50000000) all_answer
     \<lparr>habits_table = [\<lparr>h_id = ''h'', h_user_id = ''u'', current_streak = 0,
                         longest_streak = 0, total_completions = 0\<rparr>],
      progress_table = []\<rparr>
     \<lparr>req_userId = ''u'', body_habitId = ''h'', body_date = dateOnly 10, body_notes = None\<rparr> =
   (Json (Some \<lparr>date = dateOnly 9, completed = True, row_id = 1, user_id = ''u'',
                habit_id = ''h'', row_notes = []\<rparr>),
    \<lparr>habits_table = [\<lparr>h_id = ''h'', h_user_id = ''u'', current_streak = 0,
                        longest_streak = 1, total_completions = 1\<rparr>],
     progress_table = [\<lparr>date = dateOnly 9, completed = True, row_id = 1, user_id = ''u'',
                         habit_id = ''h'', row_notes = []\<rparr>]\<rparr>)"
proof -
  have d: "dateString (fixedZone (- 18000000)) (dateOnly 10) = dateOnly 9"
    by (simp add: dateString_def setHours0_fixed dateOnly_def floorDays_def msPerDay_def)
  have one: "calculateStreaks (fixedZone (- 18000000)) (dateOnly 10 + 50000000) (rows [dateOnly 9]) =
      \<lparr>currentStreak = 0, longestStreak = 1\<rparr>"
    by (simp add: loop_turns setHours0_fixed floorDays_def dateOnly_def msPerDay_def)
  show ?thesis
    using one
    by (simp add: toggle_def insert_new_def recompute_def query_def
        single_def all_answer_def d fresh_id_def select_completed_def rows_def Let_def)
qed

section \<open>Claims\<close>

text \<open>
  C3. For the empty set of completion dates calculateStreaks returns currentStreak = 0 and
  longestStreak = 0, whatever the reference date (and the time zone) is.
\<close>

theorem calculateStreaks_empty:
  "calculateStreaks z now (rows []) = \<lparr>currentStreak = 0, longestStreak = 0\<rparr>"
  by (simp add: calculateStreaks_def calculateStreaks_try_def rows_def)

text \<open>
  C1. The claim: a history whose most recent date is more than one day before today has
  currentStreak = 0, so today-3, today-4, today-5 give current = 0 and longest = 3. The code
  at that input, in a process on UTC with today the day 10: the first turn of the loop takes
  no branch and does not leave the loop, the next two turns count the two neighbouring pairs,
  and currentStreak is 2.
\<close>

theorem calculateStreaks_stale_history:
  "calculateStreaks utc (dateOnly 10) (rows [dateOnly 7, dateOnly 6, dateOnly 5]) =
     \<lparr>currentStreak = 2, longestStreak = 3\<rparr>"
  by (simp add: loop_turns utc_def setHours0_fixed floorDays_def dateOnly_def msPerDay_def)

text \<open>
  C2. The claim: longestStreak \<ge> currentStreak \<ge> 0 for every set of completion dates and
  every reference date. The code in a process on New York time at noon of 16 March 2021 (day
  18702), on the calendar dates 16 March and 14 March: the first loop compares the local
  midnights of the two dates, which the start of daylight saving leaves 47 hours apart, and
  counts them as neighbours; the second loop subtracts the dates as stored, 48 hours apart,
  and does not. currentStreak is 2 and longestStreak is 1.
\<close>

theorem longest_below_current_new_york:
  "calculateStreaks newYork (dateOnly 18702 + 57600000) (rows [dateOnly 18702, dateOnly 18700]) =
     \<lparr>currentStreak = 2, longestStreak = 1\<rparr> \<and>
   longestStreak (calculateStreaks newYork (dateOnly 18702 + 57600000)
        (rows [dateOnly 18702, dateOnly 18700]))
     < currentStreak (calculateStreaks newYork (dateOnly 18702 + 57600000)
        (rows [dateOnly 18702, dateOnly 18700]))"
  by (simp add: loop_turns newYork_def setHours0_def Let_def floorDays_def dateOnly_def
      msPerDay_def)

text \<open>
  C4. The claim: the dates today, today-1, today-2 give (3, 3), and the dates today, today-1,
  today-5, today-6, today-7 give currentStreak = 2 and longestStreak = 3. The code in a
  process on New York time at noon of 16 March 2021 (day 18702), on those calendar dates,
  most recent first as the query orders them: the local midnights of 15 March and 14 March
  are 23 hours apart, the first loop takes the pair as not one day apart and stops, and
  currentStreak is 1 in both examples.
\<close>

theorem calculateStreaks_examples_new_york:
  "calculateStreaks newYork (dateOnly 18702 + 57600000)
     (rows [dateOnly 18702, dateOnly 18701, dateOnly 18700]) =
     \<lparr>currentStreak = 1, longestStreak = 3\<rparr> \<and>
   calculateStreaks newYork (dateOnly 18702 + 57600000)
     (rows [dateOnly 18702, dateOnly 18701, dateOnly 18697, dateOnly 18696, dateOnly 18695]) =
     \<lparr>currentStreak = 1, longestStreak = 3\<rparr>"
  by (simp add: loop_turns newYork_def setHours0_def Let_def floorDays_def dateOnly_def
      msPerDay_def)

text \<open>
  C5. The claim: a single date gives longestStreak = 1, and currentStreak = 1 when the date
  is today or yesterday. The code in a process five hours west of UTC, at an instant of the
  local day 10, on the single calendar date of day 9, yesterday: the stored date denotes
  midnight UTC, which is the evening of day 8 in local time, the difference to today's
  local midnight is two days, and currentStreak is 0.
\<close>

theorem calculateStreaks_yesterday_west_of_utc:
  "localDay (- 18000000) (dateOnly 10 + 50000000) = 10 \<and>
   calculateStreaks (fixedZone (- 18000000)) (dateOnly 10 + 50000000) (rows [dateOnly 9]) =
     \<lparr>currentStreak = 0, longestStreak = 1\<rparr>"
  by (simp add: loop_turns setHours0_fixed localDay_def floorDays_def dateOnly_def msPerDay_def)

text \<open>
  C6. The claim: the result equals the result on the same dates moved to midnight by
  \<^verbatim>\<open>setHours(0, 0, 0, 0)\<close>, both loops comparing at day granularity. The code in a process on
  New York time at noon of 16 March 2021, on the calendar dates 16 March and 14 March: the
  stored dates are evenings in local time; the first loop moves them to their local
  midnights, the second loop does not, and the result is (2, 1); on the dates moved to
  their local midnights it is (2, 2).
\<close>

theorem calculateStreaks_not_normalised_new_york:
  "calculateStreaks newYork (dateOnly 18702 + 57600000) (rows [dateOnly 18702, dateOnly 18700]) =
     \<lparr>currentStreak = 2, longestStreak = 1\<rparr> \<and>
   map (setHours0 newYork) [dateOnly 18702, dateOnly 18700] = [1615780800000, 1615611600000] \<and>
   calculateStreaks newYork (dateOnly 18702 + 57600000)
       (rows (map (setHours0 newYork) [dateOnly 18702, dateOnly 18700])) =
     \<lparr>currentStreak = 2, longestStreak = 2\<rparr>"
  by (simp add: loop_turns newYork_def setHours0_def Let_def floorDays_def dateOnly_def
      msPerDay_def)

text \<open>
  C7. The longestStreak returned is the same for every two reference dates, whatever the
  query gave.
\<close>

theorem longestStreak_independent_of_today:
  "longestStreak (calculateStreaks z today1 q) = longestStreak (calculateStreaks z today2 q)"
  by (simp add: calculateStreaks_def calculateStreaks_try_def split: awaited.splits option.splits)

text \<open>
  C8. Two tables that hold the same rows in a different order give the same result: the query
  of calculateStreaks orders the completed rows of the habit by date before the loops run.
\<close>

theorem calculateStreaks_permutation:
  assumes "mset table1 = mset table2"
  shows "calculateStreaks z now (answered (select_completed table1 habitId userId)) =
         calculateStreaks z now (answered (select_completed table2 habitId userId))"
proof -
  let ?P = "\<lambda>r. habit_id r = habitId \<and> user_id r = userId \<and> completed r = True"
  have "mset (filter ?P table1) = mset (filter ?P table2)"
    using assms by (simp only: mset_filter)
  then have "mset (map date (filter ?P table1)) = mset (map date (filter ?P table2))"
    by (simp only: mset_map)
  then have "sort (map date (filter ?P table1)) = sort (map date (filter ?P table2))"
    by (rule sort_cong_mset)
  then show ?thesis
    by (simp only: select_completed_dates)
qed

theorem calculateStreaks_permutation_witness:
  "mset [\<lparr>date = dateOnly 9, completed = True, row_id = 1, user_id = ''u'', habit_id = ''h'', row_notes = []\<rparr>,
         \<lparr>date = dateOnly 10, completed = True, row_id = 2, user_id = ''u'', habit_id = ''h'', row_notes = []\<rparr>] =
   mset [\<lparr>date = dateOnly 10, completed = True, row_id = 2, user_id = ''u'', habit_id = ''h'', row_notes = []\<rparr>,
         \<lparr>date = dateOnly 9, completed = True, row_id = 1, user_id = ''u'', habit_id = ''h'', row_notes = []\<rparr>] \<and>
   calculateStreaks utc (dateOnly 10)
     (answered (select_completed
        [\<lparr>date = dateOnly 9, completed = True, row_id = 1, user_id = ''u'', habit_id = ''h'', row_notes = []\<rparr>,
         \<lparr>date = dateOnly 10, completed = True, row_id = 2, user_id = ''u'', habit_id = ''h'', row_notes = []\<rparr>]
        ''h'' ''u'')) =
   calculateStreaks utc (dateOnly 10)
     (answered (select_completed
        [\<lparr>date = dateOnly 10, completed = True, row_id = 2, user_id = ''u'', habit_id = ''h'', row_notes = []\<rparr>,
         \<lparr>date = dateOnly 9, completed = True, row_id = 1, user_id = ''u'', habit_id = ''h'', row_notes = []\<rparr>]
        ''h'' ''u''))"
proof -
  have m: "mset [\<lparr>date = dateOnly 9, completed = True, row_id = 1, user_id = ''u'', habit_id = ''h'', row_notes = []\<rparr>,
         \<lparr>date = dateOnly 10, completed = True, row_id = 2, user_id = ''u'', habit_id = ''h'', row_notes = []\<rparr>] =
   mset [\<lparr>date = dateOnly 10, completed = True, row_id = 2, user_id = ''u'', habit_id = ''h'', row_notes = []\<rparr>,
         \<lparr>date = dateOnly 9, completed = True, row_id = 1, user_id = ''u'', habit_id = ''h'', row_notes = []\<rparr>]"
    by simp
  show ?thesis
    using m calculateStreaks_permutation [OF m, of utc "dateOnly 10" "''h''" "''u''"]
    by (simp only: simp_thms)
qed

text \<open>
  C10. An exception thrown inside calculateStreaks (a rejected query) is caught and answered
  with zeros, and so are a query that resolves with an error and one that resolves with no
  data: each gives the result of an empty history, (0, 0). The result is a pair of integers
  for every input.
\<close>

theorem calculateStreaks_catches:
  "(calculateStreaks_try z now q = Inl e \<longrightarrow>
      calculateStreaks z now q = \<lparr>currentStreak = 0, longestStreak = 0\<rparr>) \<and>
   calculateStreaks z now (Rejected e) = calculateStreaks z now (rows []) \<and>
   calculateStreaks z now (Fulfilled (Response d (Some e))) = calculateStreaks z now (rows []) \<and>
   calculateStreaks z now (Fulfilled (Response None err)) = calculateStreaks z now (rows []) \<and>
   calculateStreaks z now (rows []) = \<lparr>currentStreak = 0, longestStreak = 0\<rparr>"
  by (simp add: calculateStreaks_def calculateStreaks_try_def rows_def split: option.splits)

theorem calculateStreaks_catches_witness:
  "calculateStreaks_try utc 0 (Rejected ''fetch failed'') = Inl ''fetch failed'' \<and>
   calculateStreaks utc 0 (Rejected ''fetch failed'') = \<lparr>currentStreak = 0, longestStreak = 0\<rparr>"
  using calculateStreaks_catches [of utc 0 "Rejected ''fetch failed''" "''fetch failed''"]
  by (simp add: calculateStreaks_try_def)

text \<open>
  C9. The claim: a toggle creates one row when the habit has none for the day, negates the
  flag of the row when it has one, and no operation leaves more than one row per habit and
  calendar day. The code when the habit has a completed row for day 10 and the lookup of
  that row resolves with an error (a failure of the store, not \<^verbatim>\<open>PGRST116\<close>): the handler
  takes every error of the lookup as "no row", inserts, and the habit has two rows for day
  10; the flag of the existing row is not negated.
\<close>

theorem toggle_lookup_error_second_row:
  "toggle utc (dateOnly 10) (all_answer\<lparr>progress_fetch := Fails ''upstream request timeout''\<rparr>)
     \<lparr>habits_table = [\<lparr>h_id = ''h'', h_user_id = ''u'', current_streak = 1,
                         longest_streak = 1, total_completions = 1\<rparr>],
      progress_table = [\<lparr>date = dateOnly 10, completed = True, row_id = 1, user_id = ''u'',
                          habit_id = ''h'', row_notes = []\<rparr>]\<rparr>
     \<lparr>req_userId = ''u'', body_habitId = ''h'', body_date = dateOnly 10, body_notes = None\<rparr> =
   (Json (Some \<lparr>date = dateOnly 10, completed = True, row_id = 2, user_id = ''u'',
                habit_id = ''h'', row_notes = []\<rparr>),
    \<lparr>habits_table = [\<lparr>h_id = ''h'', h_user_id = ''u'', current_streak = 1,
                        longest_streak = 1, total_completions = 2\<rparr>],
     progress_table = [\<lparr>date = dateOnly 10, completed = True, row_id = 1, user_id = ''u'',
                         habit_id = ''h'', row_notes = []\<rparr>,
                       \<lparr>date = dateOnly 10, completed = True, row_id = 2, user_id = ''u'',
                         habit_id = ''h'', row_notes = []\<rparr>]\<rparr>)"
proof -
  have d: "dateString utc (dateOnly 10) = dateOnly 10"
    by (simp add: dateString_def utc_def setHours0_fixed dateOnly_def floorDays_def msPerDay_def)
  have two: "calculateStreaks utc (dateOnly 10) (rows [dateOnly 10, dateOnly 10]) =
      \<lparr>currentStreak = 1, longestStreak = 1\<rparr>"
    by (simp add: loop_turns utc_def setHours0_fixed floorDays_def dateOnly_def msPerDay_def)
  show ?thesis
    using two
    by (simp add: toggle_def insert_new_def recompute_def query_def
        single_def all_answer_def d fresh_id_def select_completed_def rows_def Let_def)
qed

end
